theory Spec2Isabelle
  imports Complex_Main "HOL-Library.Sublist"
begin

section \<open>Text: the thinking-token filter\<close>

text \<open>
  A Python \<open>str\<close> is modelled as a \<open>string\<close>, each \<open>char\<close> standing for the code point of
  the same number (the code points below 256). \<open>str.isspace\<close> on that range is true of
  exactly the twelve code points listed in \<open>isspace\<close>.
\<close>

definition isspace :: "char \<Rightarrow> bool" where
  "isspace c = ((of_char c :: nat) \<in> {9, 10, 11, 12, 13, 28, 29, 30, 31, 32, 133, 160})"

text \<open>\<open>str.strip()\<close> with no argument: whitespace is dropped at both ends.\<close>

definition strip :: "string \<Rightarrow> string" where
  "strip s = rev (dropWhile isspace (rev (dropWhile isspace s)))"

definition open_tag :: string where
  "open_tag = ''<think>''"

definition close_tag :: string where
  "close_tag = ''</think>''"

text \<open>
  The lazy \<open>.*?\<close> of the pattern \<open><think>.*?</think>\<close> (with \<open>re.DOTALL\<close>, so any
  character is matched) stops at the first closing tag: \<open>find_close s\<close> is the text after
  the first \<open></think>\<close> of \<open>s\<close>, or \<open>None\<close> when \<open>s\<close> has none.
\<close>

fun find_close :: "string \<Rightarrow> string option" where
  "find_close [] = None"
| "find_close (c # cs) =
     (if prefix close_tag (c # cs) then Some (drop (length close_tag) (c # cs))
      else find_close cs)"

lemma find_close_length: "find_close s = Some r \<Longrightarrow> length r < length s"
  by (induction s) (auto simp: close_tag_def split: if_splits)

text \<open>
  \<open>re.sub(r"<think>.*?</think>", "", text, flags=re.DOTALL)\<close>: the text is scanned from
  the left; where the pattern matches, the match is dropped and the scan goes on after it;
  elsewhere the character is kept. The pattern matches at a position when the text there
  starts with the opening tag and a closing tag follows.
\<close>

function remove_think :: "string \<Rightarrow> string" where
  "remove_think [] = []"
| "remove_think (c # cs) =
     (if prefix open_tag (c # cs) then
        (case find_close (drop (length open_tag) (c # cs)) of
           Some rest \<Rightarrow> remove_think rest
         | None \<Rightarrow> c # remove_think cs)
      else c # remove_think cs)"
  by pat_completeness auto
termination
proof (relation "measure length")
  fix c cs rest
  assume "find_close (drop (length open_tag) (c # cs)) = Some rest"
  then have "length rest < length (drop (length open_tag) (c # cs))"
    by (rule find_close_length)
  then show "(rest, c # cs) \<in> measure length" by simp
qed simp_all

definition clean_thinking_tokens :: "string \<Rightarrow> string" where
  "clean_thinking_tokens text = strip (remove_think text)"


section \<open>Python values and their formatting\<close>

text \<open>
  A float is its exact value (a rational), or one of the four values that have none.
  Values parsed from JSON, and the attributes of the SDK's statistics object, are
  dynamically typed: \<open>pyval\<close>. A \<open>dict\<close> is the list of its items.
\<close>

datatype pyfloat = Finite rat | NegZero | PosInf | NegInf | NaN

datatype pyval =
    PNone
  | PBool bool
  | PInt int
  | PFloat pyfloat
  | PStr string
  | PList "pyval list"
  | PDict "(string \<times> pyval) list"

text \<open>
  Only subclasses of \<open>Exception\<close> are modelled. \<open>requests\<close> declares
  \<open>ConnectTimeout(ConnectionError, Timeout)\<close> and \<open>ReadTimeout(Timeout)\<close>; the other
  classes are unrelated to \<open>ConnectionError\<close> and \<open>Timeout\<close>. An exception is its class
  and the text \<open>str(e)\<close>.
\<close>

datatype exn_class =
    ConnectionError | ConnectTimeout | Timeout | ReadTimeout | HTTPError | JSONDecodeError
  | KeyError | IndexError | TypeError | ValueError | AttributeError | OverflowError
  | OSError | OtherException

datatype exn = Exn exn_class string

fun exn_str :: "exn \<Rightarrow> string" where
  "exn_str (Exn c m) = m"

fun is_ConnectionError :: "exn_class \<Rightarrow> bool" where
  "is_ConnectionError ConnectionError = True"
| "is_ConnectionError ConnectTimeout = True"
| "is_ConnectionError _ = False"

fun is_Timeout :: "exn_class \<Rightarrow> bool" where
  "is_Timeout Timeout = True"
| "is_Timeout ConnectTimeout = True"
| "is_Timeout ReadTimeout = True"
| "is_Timeout _ = False"

definition and_then :: "exn + 'a \<Rightarrow> ('a \<Rightarrow> exn + 'b) \<Rightarrow> exn + 'b" where
  "and_then r f = (case r of Inl e \<Rightarrow> Inl e | Inr x \<Rightarrow> f x)"

definition digit_char :: "nat \<Rightarrow> char" where
  "digit_char n = ''0123456789'' ! n"

fun digits :: "nat \<Rightarrow> string" where
  "digits n = (if n < 10 then [digit_char n] else digits (n div 10) @ [digit_char (n mod 10)])"

declare digits.simps [simp del]

definition str_int :: "int \<Rightarrow> string" where
  "str_int i = (if i < 0 then ''-'' @ digits (nat (- i)) else digits (nat i))"

text \<open>
  The format specification \<open>.2f\<close>: the exact value is rounded to a whole number of
  hundredths, a tie going to the even one, and printed with two decimals; the sign is kept
  even when the rounded value is zero.
\<close>

definition round_half_even :: "rat \<Rightarrow> int" where
  "round_half_even x =
     (let f = \<lfloor>x\<rfloor>; d = x - of_int f
      in if d < 1 / 2 then f else if 1 / 2 < d then f + 1 else if even f then f else f + 1)"

definition fixed2 :: "rat \<Rightarrow> string" where
  "fixed2 x =
     (let q = nat (round_half_even (x * 100))
      in digits (q div 100) @ ''.'' @ [digit_char (q mod 100 div 10), digit_char (q mod 10)])"

fun format_2f :: "pyfloat \<Rightarrow> string" where
  "format_2f (Finite r) = (if r < 0 then ''-'' @ fixed2 (- r) else fixed2 r)"
| "format_2f NegZero = ''-0.00''"
| "format_2f PosInf = ''inf''"
| "format_2f NegInf = ''-inf''"
| "format_2f NaN = ''nan''"

text \<open>
  An \<open>int\<close> formatted with \<open>.2f\<close> is converted to a float first: to the nearest value of
  53 significant bits (a tie to the even one), \<open>OverflowError\<close> from \<open>2 ^ 1024\<close> on.
\<close>

fun bit_length :: "nat \<Rightarrow> nat" where
  "bit_length n = (if n = 0 then 0 else Suc (bit_length (n div 2)))"

declare bit_length.simps [simp del]

definition float_of_int :: "int \<Rightarrow> exn + pyfloat" where
  "float_of_int i =
     (let a = nat \<bar>i\<bar>;
          k = bit_length a - 53;
          v = round_half_even (of_nat a / 2 ^ k) * 2 ^ k
      in if 2 ^ 1024 \<le> v then Inl (Exn OverflowError ''int too large to convert to float'')
         else Inr (Finite (of_int (sgn i * v))))"

fun type_name :: "pyval \<Rightarrow> string" where
  "type_name PNone = ''NoneType''"
| "type_name (PBool _) = ''bool''"
| "type_name (PInt _) = ''int''"
| "type_name (PFloat _) = ''float''"
| "type_name (PStr _) = ''str''"
| "type_name (PList _) = ''list''"
| "type_name (PDict _) = ''dict''"

definition quote :: "string \<Rightarrow> string" where
  "quote s = [CHR 0x27] @ s @ [CHR 0x27]"

text \<open>\<open>format(v, ".2f")\<close>, with the messages of CPython 3.12.\<close>

fun format_spec_2f :: "pyval \<Rightarrow> exn + string" where
  "format_spec_2f (PFloat x) = Inr (format_2f x)"
| "format_spec_2f (PInt i) = and_then (float_of_int i) (\<lambda>x. Inr (format_2f x))"
| "format_spec_2f (PBool b) = Inr (format_2f (Finite (if b then 1 else 0)))"
| "format_spec_2f (PStr s) =
     Inl (Exn ValueError
       (''Unknown format code '' @ quote ''f'' @ '' for object of type '' @ quote ''str''))"
| "format_spec_2f v =
     Inl (Exn TypeError (''unsupported format string passed to '' @ type_name v @ ''.__format__''))"

section \<open>The world outside the node\<close>

text \<open>
  The image is opaque to the node: numpy and PIL convert and encode it. An array is
  identified by a number. The parameter \<open>image\<close> of the source is \<open>img\<close> here.
\<close>

datatype ndarray = NDArray nat

type_synonym image_handle = nat
type_synonym llm = nat

record chat =
  system :: string
  turns :: "(string \<times> image_handle list) list"

record config =
  temperature :: pyfloat
  maxTokens :: int

text \<open>
  The SDK's prediction result: \<open>content\<close> and \<open>stats\<close>. An attribute of the statistics
  object that is not there is \<open>None\<close> here; \<open>stats_class\<close> is the name of the object's class,
  which Python puts in the message of an \<open>AttributeError\<close>.
\<close>

record sdk_stats =
  stats_class :: string
  tokens_per_second :: "pyval option"
  prompt_tokens_count :: "pyval option"
  predicted_tokens_count :: "pyval option"
  generation_time_sec :: "pyval option"

record sdk_result =
  content :: string
  stats :: sdk_stats

text \<open>
  The HTTP request as \<open>requests.post\<close> receives it; \<open>data\<close> is the value that
  \<open>json.dumps\<close> serialises. Of the response the node uses \<open>raise_for_status()\<close> and
  \<open>json()\<close>.
\<close>

record http_request =
  url :: string
  headers :: "(string \<times> string) list"
  data :: pyval
  timeout :: nat

record http_response =
  raise_for_status :: "exn option"
  json :: "exn + pyval"

text \<open>
  Every call that leaves the node answers as the runtime says: with a value, or by
  raising. \<open>repr_builtin\<close> is \<open>str()\<close> of a float, a list or a dict: the text, or the
  exception raised while an element is converted.
\<close>

record runtime =
  HAS_SDK :: bool
  lms_llm :: "string \<Rightarrow> exn + llm"
  lms_Chat :: "string \<Rightarrow> exn option"
  lms_prepare_image :: "string \<Rightarrow> exn + image_handle"
  add_user_message :: "chat \<Rightarrow> string \<Rightarrow> image_handle list \<Rightarrow> exn option"
  respond :: "llm \<Rightarrow> chat \<Rightarrow> config \<Rightarrow> exn + sdk_result"
  fromarray :: "ndarray \<Rightarrow> exn option"
  NamedTemporaryFile :: "string set \<Rightarrow> exn + string"
  save_jpeg :: "ndarray \<Rightarrow> string \<Rightarrow> exn option"
  unlink :: "string \<Rightarrow> exn option"
  requests_post :: "http_request \<Rightarrow> exn + http_response"
  repr_builtin :: "pyval \<Rightarrow> exn + string"

text \<open>
  What a call leaves behind: the files on disk, and, in order, the lines it printed and the
  requests it handed to a transport.
\<close>

datatype event =
    Printed string
  | PrintedImageShape ndarray
  | PrintedModelLoaded
  | PrintedConfig config
  | SdkLoad string
  | SdkUserTurn string "image_handle list"
  | SdkRespond chat config
  | HttpPost http_request

record world =
  files :: "string set"
  out :: "event list"

definition emit :: "event \<Rightarrow> world \<Rightarrow> world" where
  "emit e w = w\<lparr>out := out w @ [e]\<rparr>"

definition emit_if :: "bool \<Rightarrow> event \<Rightarrow> world \<Rightarrow> world" where
  "emit_if b e w = (if b then emit e w else w)"


section \<open>Operations on dynamically typed values\<close>

text \<open>
  The replacement field \<open>{v}\<close> of an f-string: \<open>str(v)\<close>. Since CPython 3.11 the conversion
  of an \<open>int\<close> to decimal text raises \<open>ValueError\<close> when the number has more than
  \<open>sys.get_int_max_str_digits()\<close> digits, 4300 unless the interpreter is configured
  otherwise.
\<close>

definition int_max_str_digits :: nat where
  "int_max_str_digits = 4300"

definition digit_limit_exceeded :: exn where
  "digit_limit_exceeded =
     Exn ValueError (''Exceeds the limit (4300 digits) for integer string conversion; '' @
                     ''use sys.set_int_max_str_digits() to increase the limit'')"

definition int_to_str :: "int \<Rightarrow> exn + string" where
  "int_to_str i =
     (if 10 ^ int_max_str_digits \<le> \<bar>i\<bar> then Inl digit_limit_exceeded else Inr (str_int i))"

fun py_str :: "runtime \<Rightarrow> pyval \<Rightarrow> exn + string" where
  "py_str rt (PStr s) = Inr s"
| "py_str rt (PInt i) = int_to_str i"
| "py_str rt (PBool b) = Inr (if b then ''True'' else ''False'')"
| "py_str rt PNone = Inr ''None''"
| "py_str rt v = repr_builtin rt v"

definition not_subscriptable :: "pyval \<Rightarrow> exn" where
  "not_subscriptable v = Exn TypeError (quote (type_name v) @ '' object is not subscriptable'')"

text \<open>\<open>v[key]\<close> for a string key; the text of a \<open>KeyError\<close> is the \<open>repr\<close> of the key.\<close>

fun getitem :: "pyval \<Rightarrow> string \<Rightarrow> exn + pyval" where
  "getitem (PDict kvs) key =
     (case map_of kvs key of Some v \<Rightarrow> Inr v | None \<Rightarrow> Inl (Exn KeyError (quote key)))"
| "getitem (PList xs) key =
     Inl (Exn TypeError ''list indices must be integers or slices, not str'')"
| "getitem (PStr s) key =
     Inl (Exn TypeError (''string indices must be integers, not '' @ quote ''str''))"
| "getitem v key = Inl (not_subscriptable v)"

text \<open>\<open>v[0]\<close>; the keys of a parsed JSON object are strings, so \<open>0\<close> is none of them.\<close>

fun getitem_0 :: "pyval \<Rightarrow> exn + pyval" where
  "getitem_0 (PList []) = Inl (Exn IndexError ''list index out of range'')"
| "getitem_0 (PList (x # xs)) = Inr x"
| "getitem_0 (PStr []) = Inl (Exn IndexError ''string index out of range'')"
| "getitem_0 (PStr (c # cs)) = Inr (PStr [c])"
| "getitem_0 (PDict kvs) = Inl (Exn KeyError ''0'')"
| "getitem_0 v = Inl (not_subscriptable v)"

text \<open>\<open>v.get(key, default)\<close>: a method of \<open>dict\<close> only.\<close>

fun dict_get :: "pyval \<Rightarrow> string \<Rightarrow> pyval \<Rightarrow> exn + pyval" where
  "dict_get (PDict kvs) key dflt = Inr (case map_of kvs key of Some v \<Rightarrow> v | None \<Rightarrow> dflt)"
| "dict_get v key dflt =
     Inl (Exn AttributeError
       (quote (type_name v) @ '' object has no attribute '' @ quote ''get''))"

text \<open>The filter on a value that may not be a string: \<open>re.sub\<close> raises on anything else.\<close>

fun clean_value :: "pyval \<Rightarrow> exn + pyval" where
  "clean_value (PStr s) = Inr (PStr (clean_thinking_tokens s))"
| "clean_value v =
     Inl (Exn TypeError (''expected string or bytes-like object, got '' @ quote (type_name v)))"

section \<open>The node\<close>

definition default_stats :: string where
  "default_stats = ''Tokens per Second: 0.00\<newline>Input Tokens: 0\<newline>Output Tokens: 0''"

text \<open>
  \<open>_format_stats\<close>. The three replacement fields of the f-string are formatted from left
  to right, and the first that raises ends the call.
\<close>

definition format_stats :: "runtime \<Rightarrow> pyval \<Rightarrow> pyval \<Rightarrow> pyval \<Rightarrow> exn + string" where
  "format_stats rt tokens_per_sec input_tokens output_tokens =
     and_then (format_spec_2f tokens_per_sec) (\<lambda>tps.
     and_then (py_str rt input_tokens) (\<lambda>inp.
     and_then (py_str rt output_tokens) (\<lambda>outp.
       Inr (''Tokens per Second: '' @ tps @ ''\<newline>'' @
            ''Input Tokens: '' @ inp @ ''\<newline>'' @
            ''Output Tokens: '' @ outp))))"

text \<open>
  \<open>_prepare_image\<close>. \<open>NamedTemporaryFile(suffix='.jpg', delete=False)\<close> creates the file;
  \<open>pil_image.save\<close> writes into it afterwards. The handler of the \<open>try\<close> returns \<open>None\<close>
  whichever step raised.
\<close>

definition prepare_image_failed :: "exn \<Rightarrow> bool \<Rightarrow> world \<Rightarrow> string option \<times> world" where
  "prepare_image_failed e debug w =
     (None, emit_if debug (Printed (''Debug: Error preparing image: '' @ exn_str e)) w)"

definition prepare_image :: "runtime \<Rightarrow> ndarray \<Rightarrow> bool \<Rightarrow> world \<Rightarrow> string option \<times> world" where
  "prepare_image rt img debug w =
     (case fromarray rt img of
        Some e \<Rightarrow> prepare_image_failed e debug w
      | None \<Rightarrow>
          (case NamedTemporaryFile rt (files w) of
             Inl e \<Rightarrow> prepare_image_failed e debug w
           | Inr temp_path \<Rightarrow>
               (let w1 = w\<lparr>files := insert temp_path (files w)\<rparr>
                in case save_jpeg rt img temp_path of
                     Some e \<Rightarrow> prepare_image_failed e debug w1
                   | None \<Rightarrow>
                       (Some temp_path,
                        emit_if debug
                          (Printed (''Debug: Saved image to temporary file: '' @ temp_path)) w1))))"

text \<open>
  The \<open>try\<close> block of \<open>_get_response_sdk\<close>, in three parts. Each returns the value of the
  local variable \<open>temp_path\<close> and the world as they are when the block is left, with the
  block's outcome.
\<close>

type_synonym result = "pyval \<times> string"
type_synonym sdk_block = "string option \<times> world \<times> (exn + result)"

text \<open>The truth value of \<open>temp_path\<close>: neither \<open>None\<close> nor the empty string.\<close>

fun truthy :: "string option \<Rightarrow> bool" where
  "truthy None = False"
| "truthy (Some p) = (p \<noteq> [])"

text \<open>
  The two debug lines of the \<open>try\<close> block that format a value. The line with the
  configuration formats \<open>max_tokens\<close>, an \<open>int\<close>; the line with the generation time reads
  the attribute \<open>generation_time_sec\<close> of the statistics object, without a default, and
  formats it. Without \<open>debug\<close> neither is evaluated.
\<close>

definition config_text :: "int \<Rightarrow> bool \<Rightarrow> exn + string" where
  "config_text max_tokens debug = (if debug then int_to_str max_tokens else Inr [])"

definition generation_time_text :: "runtime \<Rightarrow> sdk_stats \<Rightarrow> bool \<Rightarrow> exn + string" where
  "generation_time_text rt st debug =
     (if debug then
        (case generation_time_sec st of
           None \<Rightarrow> Inl (Exn AttributeError
                     (quote (stats_class st) @ '' object has no attribute '' @
                      quote ''generation_time_sec''))
         | Some v \<Rightarrow> py_str rt v)
      else Inr [])"

definition sdk_generate ::
  "runtime \<Rightarrow> llm \<Rightarrow> chat \<Rightarrow> pyfloat \<Rightarrow> int \<Rightarrow> bool \<Rightarrow> bool \<Rightarrow> world \<Rightarrow> world \<times> (exn + result)"
where
  "sdk_generate rt model ch temp max_tokens thinking_tokens debug w =
     (let cfg = \<lparr>temperature = temp, maxTokens = max_tokens\<rparr>
      in case config_text max_tokens debug of
           Inl e \<Rightarrow> (w, Inl e)
         | Inr u \<Rightarrow>
             (let w1 = emit_if debug (PrintedConfig cfg) w;
                  w2 = emit (SdkRespond ch cfg) w1
              in case respond rt model ch cfg of
                   Inl e \<Rightarrow> (w2, Inl e)
                 | Inr res \<Rightarrow>
                     (let w3 = emit_if debug
                                 (Printed (''Debug: Response received: '' @
                                    take 100 (content res) @ ''...'')) w2;
                          st = stats res
                      in case generation_time_text rt st debug of
                           Inl e \<Rightarrow> (w3, Inl e)
                         | Inr secs \<Rightarrow>
                             (let w4 = emit_if debug
                                         (Printed (''Debug: Generation time: '' @ secs @ ''s'')) w3;
                                  tokens_per_sec =
                                    (case tokens_per_second st of
                                       Some v \<Rightarrow> v | None \<Rightarrow> PFloat (Finite 0));
                                  input_tokens =
                                    (case prompt_tokens_count st of Some v \<Rightarrow> v | None \<Rightarrow> PInt 0);
                                  output_tokens =
                                    (case predicted_tokens_count st of
                                       Some v \<Rightarrow> v | None \<Rightarrow> PInt 0);
                                  output =
                                    (if \<not> thinking_tokens then clean_thinking_tokens (content res)
                                     else content res)
                              in (w4, and_then
                                        (format_stats rt tokens_per_sec input_tokens output_tokens)
                                        (\<lambda>stats_str. Inr (PStr output, stats_str)))))))"

definition sdk_user_turn ::
  "runtime \<Rightarrow> chat \<Rightarrow> string \<Rightarrow> image_handle list \<Rightarrow> world \<Rightarrow> world \<times> (exn + chat)"
where
  "sdk_user_turn rt ch user_message images w =
     (let w1 = emit (SdkUserTurn user_message images) w
      in case add_user_message rt ch user_message images of
           Some e \<Rightarrow> (w1, Inl e)
         | None \<Rightarrow> (w1, Inr (ch\<lparr>turns := turns ch @ [(user_message, images)]\<rparr>)))"

definition sdk_chat ::
  "runtime \<Rightarrow> chat \<Rightarrow> string \<Rightarrow> ndarray option \<Rightarrow> bool \<Rightarrow> world \<Rightarrow>
   string option \<times> world \<times> (exn + chat)"
where
  "sdk_chat rt ch user_message img debug w =
     (case img of
        None \<Rightarrow> (None, sdk_user_turn rt ch user_message [] w)
      | Some arr \<Rightarrow>
          (case prepare_image rt arr debug w of
             (temp_path, w1) \<Rightarrow>
               if truthy temp_path then
                 (case lms_prepare_image rt (the temp_path) of
                    Inl e \<Rightarrow> (temp_path, w1, Inl e)
                  | Inr image_handle \<Rightarrow>
                      (case sdk_user_turn rt ch user_message [image_handle] w1 of
                         (w2, Inl e) \<Rightarrow> (temp_path, w2, Inl e)
                       | (w2, Inr ch') \<Rightarrow>
                           (temp_path,
                            emit_if debug (Printed ''Debug: Added image to chat message'') w2,
                            Inr ch')))
               else (temp_path, sdk_user_turn rt ch user_message [] w1)))"

definition sdk_try ::
  "runtime \<Rightarrow> string \<Rightarrow> string \<Rightarrow> string \<Rightarrow> pyfloat \<Rightarrow> int \<Rightarrow> bool \<Rightarrow> ndarray option \<Rightarrow>
   bool \<Rightarrow> world \<Rightarrow> sdk_block"
where
  "sdk_try rt system_prompt user_message model_id temp max_tokens thinking_tokens img debug w =
     (let w1 = emit (SdkLoad model_id) w
      in case lms_llm rt model_id of
           Inl e \<Rightarrow> (None, w1, Inl e)
         | Inr model \<Rightarrow>
             (let w2 = emit_if debug PrintedModelLoaded w1
              in case lms_Chat rt system_prompt of
                   Some e \<Rightarrow> (None, w2, Inl e)
                 | None \<Rightarrow>
                     (case sdk_chat rt \<lparr>system = system_prompt, turns = []\<rparr> user_message img
                             debug w2 of
                        (temp_path, w3, Inl e) \<Rightarrow> (temp_path, w3, Inl e)
                      | (temp_path, w3, Inr ch) \<Rightarrow>
                          (temp_path,
                           sdk_generate rt model ch temp max_tokens thinking_tokens debug w3))))"

text \<open>
  The \<open>finally\<close> clause: \<open>os.unlink\<close> on the temporary file when \<open>temp_path\<close> is set and
  the file is there. When \<open>os.unlink\<close> raises, the file stays, and the exception leaves
  \<open>_get_response_sdk\<close> in place of the value that the \<open>try\<close> block or its handler was
  returning.
\<close>

definition sdk_cleanup ::
  "runtime \<Rightarrow> string option \<Rightarrow> bool \<Rightarrow> world \<Rightarrow> exn option \<times> world" where
  "sdk_cleanup rt temp_path debug w =
     (if truthy temp_path \<and> the temp_path \<in> files w then
        (case unlink rt (the temp_path) of
           Some e \<Rightarrow> (Some e, w)
         | None \<Rightarrow>
             (None,
              emit_if debug (Printed (''Debug: Removed temporary file: '' @ the temp_path))
                (w\<lparr>files := files w - {the temp_path}\<rparr>)))
      else (None, w))"

definition sdk_finally ::
  "runtime \<Rightarrow> string option \<Rightarrow> bool \<Rightarrow> exn + result \<Rightarrow> world \<Rightarrow> (exn + result) \<times> world"
where
  "sdk_finally rt temp_path debug r w =
     (case sdk_cleanup rt temp_path debug w of
        (Some e, w1) \<Rightarrow> (Inl e, w1)
      | (None, w1) \<Rightarrow> (r, w1))"

text \<open>The handler \<open>except Exception as e\<close> of \<open>_get_response_sdk\<close>.\<close>

definition sdk_except :: "exn \<Rightarrow> world \<Rightarrow> world \<times> (exn + result)" where
  "sdk_except e w =
     (let error_message = ''Error processing with LM Studio SDK: '' @ exn_str e
      in (emit (Printed error_message) w, Inr (PStr error_message, default_stats)))"

definition get_response_sdk ::
  "runtime \<Rightarrow> string \<Rightarrow> string \<Rightarrow> string \<Rightarrow> pyfloat \<Rightarrow> int \<Rightarrow> bool \<Rightarrow> ndarray option \<Rightarrow>
   bool \<Rightarrow> world \<Rightarrow> (exn + result) \<times> world"
where
  "get_response_sdk rt system_prompt user_message model_id temp max_tokens thinking_tokens
       img debug w =
     (case sdk_try rt system_prompt user_message model_id temp max_tokens thinking_tokens
             img debug w of
        (temp_path, w1, Inr r) \<Rightarrow> sdk_finally rt temp_path debug (Inr r) w1
      | (temp_path, w1, Inl e) \<Rightarrow>
          (case sdk_except e w1 of (w2, r) \<Rightarrow> sdk_finally rt temp_path debug r w2))"

text \<open>\<open>_get_response_api\<close>: the request, the \<open>try\<close> block, and its three handlers in order.\<close>

definition api_request :: "string \<Rightarrow> string \<Rightarrow> string \<Rightarrow> string \<Rightarrow> pyfloat \<Rightarrow> http_request" where
  "api_request system_prompt user_message model_id server_address temp =
     \<lparr>url = server_address @ ''/api/v0/chat/completions'',
      headers = [(''Content-Type'', ''application/json'')],
      data = PDict
        [(''model'', PStr model_id),
         (''messages'', PList
            [PDict [(''role'', PStr ''system''), (''content'', PStr system_prompt)],
             PDict [(''role'', PStr ''user''), (''content'', PStr user_message)]]),
         (''temperature'', PFloat temp),
         (''stream'', PBool False)],
      timeout = 120\<rparr>"

definition api_extract :: "runtime \<Rightarrow> pyval \<Rightarrow> bool \<Rightarrow> exn + result" where
  "api_extract rt res thinking_tokens =
     and_then (getitem res ''choices'') (\<lambda>choices.
     and_then (getitem_0 choices) (\<lambda>choice.
     and_then (getitem choice ''message'') (\<lambda>message.
     and_then (getitem message ''content'') (\<lambda>output0.
     and_then (if \<not> thinking_tokens then clean_value output0 else Inr output0) (\<lambda>output.
     and_then (dict_get res ''usage'' (PDict [])) (\<lambda>usage.
     and_then (dict_get res ''stats'' (PDict [])) (\<lambda>stats.
     and_then (dict_get stats ''tokens_per_second'' (PFloat (Finite 0))) (\<lambda>tokens_per_sec.
     and_then (dict_get usage ''prompt_tokens'' (PInt 0)) (\<lambda>input_tokens.
     and_then (dict_get usage ''completion_tokens'' (PInt 0)) (\<lambda>output_tokens.
     and_then (format_stats rt tokens_per_sec input_tokens output_tokens) (\<lambda>stats_str.
     Inr (output, stats_str))))))))))))"

definition api_try :: "runtime \<Rightarrow> http_request \<Rightarrow> bool \<Rightarrow> exn + result" where
  "api_try rt req thinking_tokens =
     and_then (requests_post rt req) (\<lambda>response.
       case raise_for_status response of
         Some e \<Rightarrow> Inl e
       | None \<Rightarrow> and_then (json response) (\<lambda>res. api_extract rt res thinking_tokens))"

fun api_except :: "string \<Rightarrow> exn \<Rightarrow> exn + result" where
  "api_except server_address (Exn c m) =
     (if is_ConnectionError c then
        Inr (PStr (''Connection error - is LM Studio running at '' @ server_address @ ''?''),
             default_stats)
      else if is_Timeout c then
        Inr (PStr ''Request timed out - try increasing timeout duration'', default_stats)
      else Inr (PStr (''Error: '' @ m), default_stats))"

definition get_response_api ::
  "runtime \<Rightarrow> string \<Rightarrow> string \<Rightarrow> string \<Rightarrow> string \<Rightarrow> pyfloat \<Rightarrow> bool \<Rightarrow> bool \<Rightarrow> world \<Rightarrow>
   (exn + result) \<times> world"
where
  "get_response_api rt system_prompt user_message model_id server_address temp thinking_tokens
       debug w =
     (let req = api_request system_prompt user_message model_id server_address temp;
          w1 = emit (HttpPost req) w
      in case api_try rt req thinking_tokens of
           Inr r \<Rightarrow> (Inr r, w1)
         | Inl e \<Rightarrow> (api_except server_address e, w1))"

text \<open>\<open>get_response\<close>, the entry point.\<close>

definition debug_header :: "string \<Rightarrow> bool \<Rightarrow> ndarray option \<Rightarrow> world \<Rightarrow> world" where
  "debug_header model_id use_sdk img w =
     (let w1 = emit (Printed ''Debug: Starting get_response method'') w;
          w2 = emit (Printed (''Debug: Model: '' @ model_id)) w1;
          w3 = emit (Printed (''Debug: Use SDK: '' @ (if use_sdk then ''True'' else ''False''))) w2;
          w4 = emit (Printed (''Debug: Has image: '' @
                      (if img \<noteq> None then ''True'' else ''False''))) w3
      in case img of None \<Rightarrow> w4 | Some arr \<Rightarrow> emit (PrintedImageShape arr) w4)"

definition image_warning :: string where
  "image_warning = ''Warning: Image input is not supported with API mode. Install LM Studio SDK for image support.''"

definition get_response ::
  "runtime \<Rightarrow> string \<Rightarrow> string \<Rightarrow> string \<Rightarrow> string \<Rightarrow> pyfloat \<Rightarrow> int \<Rightarrow> bool \<Rightarrow> bool \<Rightarrow>
   ndarray option \<Rightarrow> bool \<Rightarrow> world \<Rightarrow> (exn + result) \<times> world"
where
  "get_response rt system_prompt user_message0 model_id server_address temp max_tokens
       thinking_tokens use_sdk img debug w =
     (let user_message =
            (if \<not> thinking_tokens then clean_thinking_tokens user_message0 else user_message0);
          w1 = (if debug then debug_header model_id use_sdk img w else w)
      in if HAS_SDK rt \<and> use_sdk then
           get_response_sdk rt system_prompt user_message model_id temp max_tokens
             thinking_tokens img debug w1
         else
           get_response_api rt system_prompt user_message model_id server_address temp
             thinking_tokens debug
             (emit_if (img \<noteq> None \<and> debug) (Printed image_warning) w1))"


section \<open>Texts with spans\<close>

text \<open>
  A span is an opening tag with a closing tag somewhere after it. A text is written as the
  plain text before its first span and, for each span, its body and the plain text after it.
  The text is well formed when each body ends at the first closing tag after its opening
  tag, no plain part before a span holds an opening tag, and the last plain part holds no
  span.
\<close>

fun occurs_in :: "string \<Rightarrow> string \<Rightarrow> bool" where
  "occurs_in p [] = (p = [])"
| "occurs_in p (c # cs) = (prefix p (c # cs) \<or> occurs_in p cs)"

fun has_span :: "string \<Rightarrow> bool" where
  "has_span [] = False"
| "has_span (c # cs) =
     ((prefix open_tag (c # cs) \<and> find_close (drop (length open_tag) (c # cs)) \<noteq> None)
      \<or> has_span cs)"

fun render :: "string \<Rightarrow> (string \<times> string) list \<Rightarrow> string" where
  "render t0 [] = t0"
| "render t0 ((b, t) # segs) = t0 @ open_tag @ b @ close_tag @ render t segs"

fun kept :: "string \<Rightarrow> (string \<times> string) list \<Rightarrow> string" where
  "kept t0 [] = t0"
| "kept t0 ((b, t) # segs) = t0 @ kept t segs"

fun well_formed :: "string \<Rightarrow> (string \<times> string) list \<Rightarrow> bool" where
  "well_formed t0 [] = (\<not> has_span t0)"
| "well_formed t0 ((b, t) # segs) =
     (\<not> occurs_in open_tag t0 \<and> \<not> occurs_in close_tag b \<and> well_formed t segs)"


section \<open>Measures used in the statements\<close>

text \<open>The number of line breaks of a text: a text of three lines has two.\<close>

definition newlines :: "string \<Rightarrow> nat" where
  "newlines s = length (filter (\<lambda>c. c = CHR ''\<newline>'') s)"


text \<open>The requests among the events.\<close>

fun posts :: "event list \<Rightarrow> http_request list" where
  "posts [] = []"
| "posts (HttpPost r # es) = r # posts es"
| "posts (e # es) = posts es"


definition opt_field :: "string \<Rightarrow> pyval option \<Rightarrow> (string \<times> pyval) list" where
  "opt_field k v = (case v of None \<Rightarrow> [] | Some x \<Rightarrow> [(k, x)])"

definition usage_obj :: "int option \<Rightarrow> int option \<Rightarrow> pyval" where
  "usage_obj inp outp =
     PDict (opt_field ''prompt_tokens'' (map_option PInt inp) @
            opt_field ''completion_tokens'' (map_option PInt outp))"

definition stats_obj :: "pyfloat option \<Rightarrow> pyval" where
  "stats_obj tps = PDict (opt_field ''tokens_per_second'' (map_option PFloat tps))"

definition reply_json :: "string \<Rightarrow> pyval option \<Rightarrow> pyval option \<Rightarrow> pyval" where
  "reply_json c usage_v stats_v = PDict
     ([(''choices'', PList [PDict [(''message'', PDict [(''content'', PStr c)])]])] @
      opt_field ''usage'' usage_v @ opt_field ''stats'' stats_v)"














text \<open>
  What the statistics text shows for such a response: the field where it is there, zero
  where the field or its object is absent.
\<close>

definition shown_rate :: "pyfloat option option \<Rightarrow> pyfloat" where
  "shown_rate s = (case s of Some (Some x) \<Rightarrow> x | _ \<Rightarrow> Finite 0)"

definition shown_prompt :: "(int option \<times> int option) option \<Rightarrow> int" where
  "shown_prompt u = (case u of Some (Some i, j) \<Rightarrow> i | _ \<Rightarrow> 0)"

definition shown_completion :: "(int option \<times> int option) option \<Rightarrow> int" where
  "shown_completion u = (case u of Some (i, Some j) \<Rightarrow> j | _ \<Rightarrow> 0)"

section \<open>The filter on well-formed texts\<close>

lemma occurs_in_sublist: "occurs_in p s \<longleftrightarrow> sublist p s"
  by (induction s) (auto simp: sublist_Cons_right)

lemma border_nth:
  assumes "prefix t (d @ t @ x)" "d \<noteq> []" "t \<noteq> []"
    and "\<And>k. 0 < k \<Longrightarrow> k < length t \<Longrightarrow> t ! k \<noteq> t ! 0"
  shows "prefix t d"
proof (cases "length d < length t")
  case True
  from assms(1) have "t = take (length t) (d @ t @ x)"
    by (metis append_eq_conv_conj prefix_def)
  then have "t ! length d = (d @ t @ x) ! length d"
    using True by (metis nth_take)
  also have "\<dots> = t ! 0"
    using assms(3) by (simp add: nth_append)
  finally show ?thesis using assms(2,4) True by auto
next
  case False
  from assms(1) have "t = take (length t) (d @ t @ x)"
    by (metis append_eq_conv_conj prefix_def)
  with False have "t = take (length t) d" by simp
  then show ?thesis by (metis take_is_prefix)
qed

lemma open_tag_nth: "0 < k \<Longrightarrow> k < length open_tag \<Longrightarrow> open_tag ! k \<noteq> open_tag ! 0"
  by (auto simp: open_tag_def nth_Cons' less_Suc_eq)

lemma close_tag_nth: "0 < k \<Longrightarrow> k < length close_tag \<Longrightarrow> close_tag ! k \<noteq> close_tag ! 0"
  by (auto simp: close_tag_def nth_Cons' less_Suc_eq)

lemma open_border: "prefix open_tag (d @ open_tag @ x) \<Longrightarrow> d = [] \<or> prefix open_tag d"
  using border_nth[of open_tag d x] open_tag_nth by (auto simp: open_tag_def)

lemma close_border: "prefix close_tag (d @ close_tag @ x) \<Longrightarrow> d = [] \<or> prefix close_tag d"
  using border_nth[of close_tag d x] close_tag_nth by (auto simp: close_tag_def)

lemma find_close_None_iff: "find_close s = None \<longleftrightarrow> \<not> sublist close_tag s"
  by (induction s) (auto simp: sublist_Cons_right close_tag_def)

lemma find_close_first:
  "\<not> sublist close_tag b \<Longrightarrow> find_close (b @ close_tag @ r) = Some r"
proof (induction b)
  case Nil
  then show ?case by (simp add: close_tag_def)
next
  case (Cons c cs)
  have "\<not> prefix close_tag ((c # cs) @ close_tag @ r)"
    using close_border[of "c # cs" r] Cons.prems by (auto dest: prefix_imp_sublist)
  moreover have "\<not> sublist close_tag cs"
    using Cons.prems by (auto simp: sublist_Cons_right)
  ultimately show ?case using Cons.IH by simp
qed


lemma remove_think_no_span: "\<not> has_span s \<Longrightarrow> remove_think s = s"
  by (induction s) (auto split: option.splits)

lemma remove_think_skip:
  "\<not> sublist open_tag t \<Longrightarrow> remove_think (t @ open_tag @ x) = t @ remove_think (open_tag @ x)"
proof (induction t)
  case Nil
  then show ?case by simp
next
  case (Cons c cs)
  have "\<not> prefix open_tag ((c # cs) @ open_tag @ x)"
    using open_border[of "c # cs" x] Cons.prems by (auto dest: prefix_imp_sublist)
  moreover have "\<not> sublist open_tag cs"
    using Cons.prems by (auto simp: sublist_Cons_right)
  ultimately show ?case using Cons.IH by simp
qed

lemma remove_think_span:
  assumes "\<not> sublist close_tag b"
  shows "remove_think (open_tag @ b @ close_tag @ r) = remove_think r"
proof -
  define u where "u = ''think>'' @ b @ close_tag @ r"
  have eq: "open_tag @ b @ close_tag @ r = CHR ''<'' # u"
    by (simp add: open_tag_def u_def)
  have p: "prefix open_tag (CHR ''<'' # u)"
    by (simp add: open_tag_def u_def)
  have d: "drop (length open_tag) (CHR ''<'' # u) = b @ close_tag @ r"
    by (simp add: open_tag_def u_def)
  show ?thesis
    unfolding eq remove_think.simps d using p find_close_first[OF assms, of r] by simp
qed

lemma remove_think_render:
  "well_formed t0 segs \<Longrightarrow> remove_think (render t0 segs) = kept t0 segs"
proof (induction segs arbitrary: t0)
  case Nil
  then show ?case by (simp add: remove_think_no_span)
next
  case (Cons seg segs)
  obtain b t where seg: "seg = (b, t)" by (cases seg)
  with Cons.prems have wf: "\<not> sublist open_tag t0" "\<not> sublist close_tag b" "well_formed t segs"
    by (simp_all add: occurs_in_sublist)
  show ?case
    using Cons.IH[OF wf(3)] by (simp add: seg remove_think_skip[OF wf(1)] remove_think_span[OF wf(2)])
qed

lemma has_span_iff: "has_span s \<longleftrightarrow> (\<exists>a b c. s = a @ open_tag @ b @ close_tag @ c)"
proof
  show "has_span s \<Longrightarrow> \<exists>a b c. s = a @ open_tag @ b @ close_tag @ c"
  proof (induction s)
    case Nil
    then show ?case by simp
  next
    case (Cons x xs)
    show ?case
    proof (cases "has_span xs")
      case True
      then obtain a b c where "xs = a @ open_tag @ b @ close_tag @ c" using Cons.IH by blast
      then have "x # xs = (x # a) @ open_tag @ b @ close_tag @ c" by simp
      then show ?thesis by blast
    next
      case False
      with Cons.prems have p: "prefix open_tag (x # xs)"
        and f: "find_close (drop (length open_tag) (x # xs)) \<noteq> None" by auto
      from p obtain r where r: "x # xs = open_tag @ r" by (auto simp: prefix_def)
      with f have "sublist close_tag r" by (simp add: find_close_None_iff)
      then obtain b c where "r = b @ close_tag @ c" by (auto simp: sublist_def)
      with r have "x # xs = [] @ open_tag @ b @ close_tag @ c" by simp
      then show ?thesis by blast
    qed
  qed
next
  assume "\<exists>a b c. s = a @ open_tag @ b @ close_tag @ c"
  then obtain a b c where s: "s = a @ open_tag @ b @ close_tag @ c" by blast
  have "has_span (a @ open_tag @ b @ close_tag @ c)"
  proof (induction a)
    case Nil
    have "sublist close_tag (b @ close_tag @ c)" by (auto simp: sublist_def)
    then have "find_close (b @ close_tag @ c) \<noteq> None" by (simp add: find_close_None_iff)
    moreover have "open_tag @ b @ close_tag @ c = CHR ''<'' # ''think>'' @ b @ close_tag @ c"
      by (simp add: open_tag_def)
    ultimately show ?case by (simp add: open_tag_def)
  next
    case (Cons x xs)
    then show ?case by simp
  qed
  with s show "has_span s" by simp
qed


text \<open>
  C4. On a well-formed text the filter removes every span, tags included, over line breaks
  too, and strips the whitespace at both ends of what is left; a text without a span is
  returned stripped and otherwise unchanged.
\<close>

theorem clean_thinking_tokens_removes_spans:
  "(well_formed t0 segs \<longrightarrow> clean_thinking_tokens (render t0 segs) = strip (kept t0 segs))
   \<and> (\<not> has_span s \<longrightarrow> clean_thinking_tokens s = strip s)"
  by (simp add: clean_thinking_tokens_def remove_think_render remove_think_no_span)

theorem clean_thinking_tokens_removes_spans_witness:
  "well_formed ''  a'' [(''x\<newline>y'', ''b ''), ('''', '' c<think> '')]
   \<and> clean_thinking_tokens ''  a<think>x\<newline>y</think>b <think></think> c<think> '' = ''ab  c<think>''
   \<and> \<not> has_span '' a <think> b ''
   \<and> clean_thinking_tokens '' a <think> b '' = ''a <think> b''"
  using clean_thinking_tokens_removes_spans
    [of "''  a''" "[(''x\<newline>y'', ''b ''), ('''', '' c<think> '')]" "'' a <think> b ''"]
  by (simp add: open_tag_def close_tag_def strip_def isspace_def)

section \<open>The statistics text\<close>






































end
